theory Spec2Isabelle
  imports Main "HOL-Library.Sublist"
begin

section \<open>Python values\<close>

text \<open>
  A Python \<open>str\<close> is a sequence of Unicode code points; it is modelled as a list of
  natural numbers, so that \<open>len\<close>, \<open>strip\<close> and concatenation count what Python counts.
  \<open>str\<close> turns an ASCII literal of the source into such a list.
\<close>

type_synonym pystr = "nat list"

definition str :: "string \<Rightarrow> pystr" where
  "str cs = map of_char cs"

text \<open>
  What \<open>json.load\<close> returns: \<open>None\<close>, \<open>bool\<close>, \<open>int\<close>, \<open>float\<close>, \<open>str\<close>, \<open>list\<close>
  and \<open>dict\<close>. A dict is an association list in which the first entry of a key is the
  one that counts. Floats are opaque (\<open>'f\<close>); the three things the code does with a
  number (\<open>bool(x)\<close>, \<open>x == 1\<close>, \<open>x + 1\<close>) are passed as \<open>float_ops\<close>.
\<close>

datatype 'f json =
    JNull
  | JBool bool
  | JInt int
  | JFloat 'f
  | JStr pystr
  | JList "'f json list"
  | JObj "(pystr \<times> 'f json) list"

record 'f float_ops =
  fl_nonzero :: "'f \<Rightarrow> bool"
  fl_is_one :: "'f \<Rightarrow> bool"
  fl_add1 :: "'f \<Rightarrow> 'f"

datatype py_error = TypeError | AttributeError | Exception pystr

text \<open>Sequencing of computations that may raise: the first exception wins.\<close>

definition ebind :: "'e + 'a \<Rightarrow> ('a \<Rightarrow> 'e + 'b) \<Rightarrow> 'e + 'b" where
  "ebind m f = (case m of Inl e \<Rightarrow> Inl e | Inr x \<Rightarrow> f x)"

text \<open>\<open>bool(v)\<close>, as \<open>if v\<close>, \<open>not v\<close> and \<open>or\<close> use it.\<close>

fun py_truthy :: "'f float_ops \<Rightarrow> 'f json \<Rightarrow> bool" where
  "py_truthy fo JNull = False"
| "py_truthy fo (JBool b) = b"
| "py_truthy fo (JInt i) = (i \<noteq> 0)"
| "py_truthy fo (JFloat x) = fl_nonzero fo x"
| "py_truthy fo (JStr s) = (s \<noteq> [])"
| "py_truthy fo (JList xs) = (xs \<noteq> [])"
| "py_truthy fo (JObj kvs) = (kvs \<noteq> [])"

text \<open>\<open>isinstance(v, dict)\<close> and \<open>isinstance(v, list)\<close>.\<close>

fun is_dict :: "'f json \<Rightarrow> bool" where
  "is_dict (JObj kvs) = True"
| "is_dict v = False"

fun is_list :: "'f json \<Rightarrow> bool" where
  "is_list (JList xs) = True"
| "is_list v = False"

text \<open>\<open>v.get(k, d)\<close>: only a dict has \<open>get\<close>.\<close>

fun py_get :: "'f json \<Rightarrow> pystr \<Rightarrow> 'f json \<Rightarrow> py_error + 'f json" where
  "py_get (JObj kvs) k d = Inr (case map_of kvs k of None \<Rightarrow> d | Some v \<Rightarrow> v)"
| "py_get v k d = Inl AttributeError"

text \<open>\<open>len(v)\<close>: defined on str, list and dict.\<close>

fun py_len :: "'f json \<Rightarrow> py_error + nat" where
  "py_len (JStr s) = Inr (length s)"
| "py_len (JList xs) = Inr (length xs)"
| "py_len (JObj kvs) = Inr (length (remdups (map fst kvs)))"
| "py_len v = Inl TypeError"

text \<open>\<open>for x in v\<close>: a list gives its elements, a str its characters, a dict its keys.\<close>

fun py_iter :: "'f json \<Rightarrow> py_error + 'f json list" where
  "py_iter (JList xs) = Inr xs"
| "py_iter (JStr s) = Inr (map (\<lambda>c. JStr [c]) s)"
| "py_iter (JObj kvs) = Inr (map JStr (remdups (map fst kvs)))"
| "py_iter v = Inl TypeError"

text \<open>\<open>k in v\<close> for a str \<open>k\<close>: a key of a dict, an element of a list, a substring of a str.\<close>

fun py_contains :: "pystr \<Rightarrow> 'f json \<Rightarrow> py_error + bool" where
  "py_contains k (JObj kvs) = Inr (k \<in> set (map fst kvs))"
| "py_contains k (JList xs) = Inr (JStr k \<in> set xs)"
| "py_contains k (JStr s) = Inr (sublist k s)"
| "py_contains k v = Inl TypeError"

text \<open>\<open>v + 1\<close>: \<open>bool\<close> is a subclass of \<open>int\<close>.\<close>

fun py_add1 :: "'f float_ops \<Rightarrow> 'f json \<Rightarrow> py_error + 'f json" where
  "py_add1 fo (JInt i) = Inr (JInt (i + 1))"
| "py_add1 fo (JBool b) = Inr (JInt ((if b then 1 else 0) + 1))"
| "py_add1 fo (JFloat x) = Inr (JFloat (fl_add1 fo x))"
| "py_add1 fo v = Inl TypeError"

text \<open>\<open>v == 1\<close>.\<close>

fun py_eq_one :: "'f float_ops \<Rightarrow> 'f json \<Rightarrow> bool" where
  "py_eq_one fo (JInt i) = (i = 1)"
| "py_eq_one fo (JBool b) = b"
| "py_eq_one fo (JFloat x) = fl_is_one fo x"
| "py_eq_one fo v = False"

text \<open>
  \<open>str.isspace\<close> on one code point, and \<open>s.strip()\<close>, which removes such code points
  from both ends.
\<close>

definition py_isspace :: "nat \<Rightarrow> bool" where
  "py_isspace c =
     ((9 \<le> c \<and> c \<le> 13) \<or> (28 \<le> c \<and> c \<le> 32) \<or> c = 133 \<or> c = 160 \<or> c = 5760
      \<or> (8192 \<le> c \<and> c \<le> 8202) \<or> c = 8232 \<or> c = 8233 \<or> c = 8239 \<or> c = 8287
      \<or> c = 12288)"

definition strip :: "pystr \<Rightarrow> pystr" where
  "strip s = rev (dropWhile py_isspace (rev (dropWhile py_isspace s)))"

text \<open>\<open>v.strip()\<close> on a JSON value: only a str has \<open>strip\<close>.\<close>

fun py_strip :: "'f json \<Rightarrow> py_error + pystr" where
  "py_strip (JStr s) = Inr (strip s)"
| "py_strip v = Inl AttributeError"

text \<open>\<open>sep.join(parts)\<close>: every part must be a str.\<close>

fun join :: "pystr \<Rightarrow> pystr list \<Rightarrow> pystr" where
  "join sep [] = []"
| "join sep [x] = x"
| "join sep (x # y # ys) = x @ sep @ join sep (y # ys)"

fun str_items :: "'f json list \<Rightarrow> py_error + pystr list" where
  "str_items [] = Inr []"
| "str_items (JStr s # vs) = ebind (str_items vs) (\<lambda>ss. Inr (s # ss))"
| "str_items (v # vs) = Inl TypeError"

definition py_join :: "pystr \<Rightarrow> 'f json list \<Rightarrow> py_error + pystr" where
  "py_join sep parts = ebind (str_items parts) (\<lambda>ss. Inr (join sep ss))"

text \<open>
  A \<open>for\<close> loop whose body appends to a list: the items each pass appends, in order;
  an exception in a pass ends the loop with that exception.
\<close>

fun for_each :: "('a \<Rightarrow> 'e + 'b list) \<Rightarrow> 'a list \<Rightarrow> 'e + 'b list" where
  "for_each body [] = Inr []"
| "for_each body (x # xs) =
     ebind (body x) (\<lambda>ys. ebind (for_each body xs) (\<lambda>zs. Inr (ys @ zs)))"

section \<open>The layout normalizer (\<open>routes.py\<close>, \<open>parse_mineru_layout_from_data\<close>)\<close>

text \<open>One entry of the returned list: \<open>{"page": .., "bbox": .., "text": .., "type": ..}\<close>.\<close>

record 'f block =
  blk_page :: "'f json"
  blk_bbox :: "'f json"
  blk_text :: pystr
  blk_type :: "'f json"

subsection \<open>Format 1: \<open>{"pdf_info": [{"para_blocks": [...], "page_idx": 0}, ...]}\<close>\<close>

text \<open>The body of \<open>for span in spans\<close>: the truthy \<open>content\<close> of a dict span.\<close>

definition span_content :: "'f float_ops \<Rightarrow> 'f json \<Rightarrow> py_error + 'f json list" where
  "span_content fo span =
     (if is_dict span then
        ebind (py_get span (str ''content'') (JStr [])) (\<lambda>content.
        if py_truthy fo content then Inr [content] else Inr [])
      else Inr [])"

text \<open>The body of \<open>for line in lines\<close>: a line that is no dict is passed over.\<close>

definition line_spans :: "'f float_ops \<Rightarrow> 'f json \<Rightarrow> py_error + 'f json list" where
  "line_spans fo line =
     (if \<not> is_dict line then Inr []
      else
        ebind (py_get line (str ''spans'') (JList [])) (\<lambda>spans.
        ebind (py_iter spans) (\<lambda>spans_seq.
        for_each (span_content fo) spans_seq)))"

text \<open>The body of \<open>for block in para_blocks\<close>.\<close>

definition para_block :: "'f float_ops \<Rightarrow> 'f json \<Rightarrow> 'f json \<Rightarrow> py_error + 'f block list" where
  "para_block fo page_no block =
     ebind (py_get block (str ''type'') (JStr [])) (\<lambda>block_type.
     if block_type \<noteq> JStr (str ''text'') \<and> block_type \<noteq> JStr (str ''title'') then Inr []
     else
       ebind (py_get block (str ''bbox'') (JList [])) (\<lambda>bbox.
       if \<not> py_truthy fo bbox then Inr []
       else
         ebind (py_len bbox) (\<lambda>n.
         if n < 4 then Inr []
         else
           ebind (py_get block (str ''lines'') (JList [])) (\<lambda>lines.
           ebind (py_iter lines) (\<lambda>lines_seq.
           ebind (for_each (line_spans fo) lines_seq) (\<lambda>text_parts.
           ebind (py_join (str '' '') text_parts) (\<lambda>joined.
           let text = strip joined in
           if text \<noteq> [] then
             Inr [\<lparr>blk_page = page_no, blk_bbox = bbox, blk_text = text, blk_type = block_type\<rparr>]
           else Inr [])))))))"

text \<open>
  The body of \<open>for page_data in pdf_info\<close>. The debug message is an f-string, so
  \<open>len(para_blocks)\<close> is evaluated whatever the log level.
\<close>

definition pdf_page :: "'f float_ops \<Rightarrow> 'f json \<Rightarrow> py_error + 'f block list" where
  "pdf_page fo page_data =
     ebind (py_get page_data (str ''page_idx'') (JInt 0)) (\<lambda>page_idx.
     ebind (py_add1 fo page_idx) (\<lambda>page_no.
     ebind (py_get page_data (str ''para_blocks'') (JList [])) (\<lambda>para_blocks.
     if \<not> py_truthy fo para_blocks then Inr []
     else
       ebind (py_len para_blocks) (\<lambda>n.
       ebind (py_iter para_blocks) (\<lambda>blocks.
       for_each (para_block fo page_no) blocks)))))"

definition parse_pdf_info :: "'f float_ops \<Rightarrow> 'f json \<Rightarrow> py_error + 'f block list" where
  "parse_pdf_info fo mineru_data =
     ebind (py_get mineru_data (str ''pdf_info'') (JList [])) (\<lambda>pdf_info.
     ebind (py_len pdf_info) (\<lambda>n.
     ebind (py_iter pdf_info) (\<lambda>pages.
     for_each (pdf_page fo) pages)))"

subsection \<open>Format 2: \<open>[{"text": "...", "bbox": [...], "page_idx": 0}, ...]\<close>\<close>

text \<open>The test on the first element that selects this format.\<close>

definition is_content_item :: "'f json \<Rightarrow> bool" where
  "is_content_item first_item =
     (case first_item of
        JObj kvs \<Rightarrow> str ''text'' \<in> set (map fst kvs) \<and> str ''page_idx'' \<in> set (map fst kvs)
      | _ \<Rightarrow> False)"

text \<open>The body of \<open>for item in mineru_data\<close>.\<close>

definition content_item :: "'f float_ops \<Rightarrow> 'f json \<Rightarrow> py_error + 'f block list" where
  "content_item fo item =
     ebind (py_get item (str ''text'') (JStr [])) (\<lambda>raw.
     ebind (py_strip raw) (\<lambda>text.
     if text = [] then Inr []
     else
       ebind (py_get item (str ''bbox'') (JList [])) (\<lambda>bbox.
       if \<not> py_truthy fo bbox then Inr []
       else
         ebind (py_len bbox) (\<lambda>n.
         if n < 4 then Inr []
         else
           ebind (py_get item (str ''page_idx'') (JInt 0)) (\<lambda>page_idx.
           ebind (py_add1 fo page_idx) (\<lambda>page_no.
           ebind (py_get item (str ''type'') (JStr (str ''text''))) (\<lambda>own_type.
           ebind (py_get item (str ''text_level'') JNull) (\<lambda>text_level.
           let block_type = (if py_eq_one fo text_level then JStr (str ''title'') else own_type) in
           Inr [\<lparr>blk_page = page_no, blk_bbox = bbox, blk_text = text, blk_type = block_type\<rparr>]))))))))"

definition parse_content_list :: "'f float_ops \<Rightarrow> 'f json list \<Rightarrow> py_error + 'f block list" where
  "parse_content_list fo items = for_each (content_item fo) items"

subsection \<open>Format 3: \<open>[[{"type": "...", "content": "...", "bbox": [...]}, ...], ...]\<close>\<close>

text \<open>The body of \<open>for block in page_blocks\<close>.\<close>

definition model_block :: "'f float_ops \<Rightarrow> 'f json \<Rightarrow> 'f json \<Rightarrow> py_error + 'f block list" where
  "model_block fo page_no block =
     (if \<not> is_dict block then Inr []
      else
        ebind (py_get block (str ''content'') (JStr [])) (\<lambda>raw.
        ebind (py_strip raw) (\<lambda>content.
        if content = [] then Inr []
        else
          ebind (py_get block (str ''bbox'') (JList [])) (\<lambda>bbox.
          if \<not> py_truthy fo bbox then Inr []
          else
            ebind (py_len bbox) (\<lambda>n.
            if n < 4 then Inr []
            else
              ebind (py_get block (str ''type'') (JStr (str ''text''))) (\<lambda>block_type.
              Inr [\<lparr>blk_page = page_no, blk_bbox = bbox, blk_text = content,
                    blk_type = block_type\<rparr>]))))))"

text \<open>The body of \<open>for page_idx, page_blocks in enumerate(mineru_data)\<close>.\<close>

definition model_page :: "'f float_ops \<Rightarrow> nat \<times> 'f json \<Rightarrow> py_error + 'f block list" where
  "model_page fo ip =
     (case ip of (page_idx, page_blocks) \<Rightarrow>
        let page_no = JInt (int page_idx + 1) in
        (case page_blocks of
           JList blocks \<Rightarrow> for_each (model_block fo page_no) blocks
         | _ \<Rightarrow> Inr []))"

definition parse_model_json :: "'f float_ops \<Rightarrow> 'f json list \<Rightarrow> py_error + 'f block list" where
  "parse_model_json fo pages = for_each (model_page fo) (enumerate 0 pages)"

subsection \<open>Format 4: \<open>{"pages": [{"blocks": [...], "page_no": 1}, ...]}\<close>\<close>

text \<open>
  \<open>page.get("page_no") or page.get("page") or page.get("pageNo") or page.get("page_idx", 0) + 1\<close>:
  \<open>or\<close> gives its left operand when that is truthy and evaluates its right operand only
  otherwise; \<open>+\<close> binds tighter than \<open>or\<close>.
\<close>

definition resolve_page_no :: "'f float_ops \<Rightarrow> 'f json \<Rightarrow> py_error + 'f json" where
  "resolve_page_no fo page =
     ebind (py_get page (str ''page_no'') JNull) (\<lambda>a.
     if py_truthy fo a then Inr a
     else
       ebind (py_get page (str ''page'') JNull) (\<lambda>b.
       if py_truthy fo b then Inr b
       else
         ebind (py_get page (str ''pageNo'') JNull) (\<lambda>c.
         if py_truthy fo c then Inr c
         else
           ebind (py_get page (str ''page_idx'') (JInt 0)) (\<lambda>page_idx.
           py_add1 fo page_idx))))"

text \<open>\<open>block.get("bbox") or block.get("bbox_coords") or [0, 0, 0, 0]\<close>.\<close>

definition resolve_bbox :: "'f float_ops \<Rightarrow> 'f json \<Rightarrow> py_error + 'f json" where
  "resolve_bbox fo block =
     ebind (py_get block (str ''bbox'') JNull) (\<lambda>a.
     if py_truthy fo a then Inr a
     else
       ebind (py_get block (str ''bbox_coords'') JNull) (\<lambda>b.
       if py_truthy fo b then Inr b
       else Inr (JList [JInt 0, JInt 0, JInt 0, JInt 0])))"

text \<open>The body of \<open>for line in lines\<close>: \<open>line.get("text", "") or line.get("content", "")\<close>.\<close>

definition line_text :: "'f float_ops \<Rightarrow> 'f json \<Rightarrow> py_error + 'f json list" where
  "line_text fo line =
     (if is_dict line then
        ebind (py_get line (str ''text'') (JStr [])) (\<lambda>a.
        ebind (if py_truthy fo a then Inr a else py_get line (str ''content'') (JStr [])) (\<lambda>t.
        if py_truthy fo t then Inr [t] else Inr []))
      else Inr [])"

text \<open>The body of \<open>for block_idx, block in enumerate(blocks)\<close>.\<close>

definition pages_block :: "'f float_ops \<Rightarrow> 'f json \<Rightarrow> 'f json \<Rightarrow> py_error + 'f block list" where
  "pages_block fo page_no block =
     ebind (py_get block (str ''type'') (JStr [])) (\<lambda>block_type.
     if block_type = JStr (str ''text'') \<or> block_type = JStr (str ''title'') then
       ebind (py_get block (str ''lines'') (JList [])) (\<lambda>lines.
       if \<not> py_truthy fo lines then Inr []
       else
         ebind (py_iter lines) (\<lambda>lines_seq.
         ebind (for_each (line_text fo) lines_seq) (\<lambda>text_parts.
         ebind (py_join (str '' '') text_parts) (\<lambda>joined.
         let text = strip joined in
         if text \<noteq> [] then
           ebind (resolve_bbox fo block) (\<lambda>bbox.
           Inr [\<lparr>blk_page = page_no, blk_bbox = bbox, blk_text = text, blk_type = block_type\<rparr>])
         else Inr []))))
     else Inr [])"

text \<open>The body of \<open>for page_idx, page in enumerate(pages)\<close>.\<close>

definition pages_page :: "'f float_ops \<Rightarrow> 'f json \<Rightarrow> py_error + 'f block list" where
  "pages_page fo page =
     ebind (resolve_page_no fo page) (\<lambda>page_no.
     ebind (py_get page (str ''blocks'') (JList [])) (\<lambda>blocks.
     if \<not> py_truthy fo blocks then Inr []
     else
       ebind (py_len blocks) (\<lambda>n.
       ebind (py_iter blocks) (\<lambda>blocks_seq.
       for_each (pages_block fo page_no) blocks_seq))))"

definition parse_pages :: "'f float_ops \<Rightarrow> 'f json \<Rightarrow> py_error + 'f block list" where
  "parse_pages fo mineru_data =
     ebind (py_get mineru_data (str ''pages'') (JList [])) (\<lambda>pages.
     if py_truthy fo pages then
       ebind (py_len pages) (\<lambda>n.
       ebind (py_iter pages) (\<lambda>pages_seq.
       for_each (pages_page fo) pages_seq))
     else Inr [])"

subsection \<open>The dispatch\<close>

text \<open>
  The body of the \<open>try\<close>: the formats are tried in the order 1, 2, 3, 4, and an input
  that is a list but neither format 2 nor format 3 goes on to \<open>mineru_data.get("pages", [])\<close>.
\<close>

definition parse_body :: "'f float_ops \<Rightarrow> 'f json \<Rightarrow> py_error + 'f block list" where
  "parse_body fo mineru_data =
     (if \<not> py_truthy fo mineru_data then Inr []
      else
        ebind (py_contains (str ''pdf_info'') mineru_data) (\<lambda>has_pdf_info.
        if has_pdf_info then parse_pdf_info fo mineru_data
        else
          (case mineru_data of
             JList (first_item # rest) \<Rightarrow>
               if is_content_item first_item then parse_content_list fo (first_item # rest)
               else if is_list first_item then parse_model_json fo (first_item # rest)
               else parse_pages fo mineru_data
           | _ \<Rightarrow> parse_pages fo mineru_data)))"

text \<open>\<open>except Exception: return []\<close> around the whole body.\<close>

definition parse_mineru_layout_from_data :: "'f float_ops \<Rightarrow> 'f json \<Rightarrow> 'f block list" where
  "parse_mineru_layout_from_data fo mineru_data =
     (case parse_body fo mineru_data of Inl e \<Rightarrow> [] | Inr layout \<Rightarrow> layout)"

section \<open>The translation client (\<open>translator_llm.py\<close>)\<close>

subsection \<open>What the client is given\<close>

text \<open>The keys of \<open>current_app.config\<close> the client reads; \<open>Config\<close> sets each to a str.\<close>

record config =
  QWEN_API_KEY :: pystr
  QWEN_BASE_URL :: pystr
  QWEN_MODEL :: pystr
  OPENAI_API_KEY :: pystr
  OPENAI_BASE_URL :: pystr
  DEFAULT_MODEL :: pystr

text \<open>
  One call of \<open>client.chat.completions.create\<close>: the credential and endpoint of the
  client, the model and the prompt of the single user message (the temperature is the
  constant 0.2).
\<close>

record request =
  api_key :: pystr
  base_url :: pystr
  model_name :: pystr
  prompt :: pystr

text \<open>
  What the call gives back: it raises (with \<open>str(api_error)\<close>), or it returns a
  response, whose \<open>choices[0].message.content\<close> the client reads; each of the response,
  the message and the content may be \<open>None\<close>.
\<close>

datatype message = Message "pystr option"

datatype choice = Choice "message option"

datatype completion = Completion "choice list"

datatype api_result = Raises pystr | Returns "completion option"

text \<open>
  The library and the remote service, as parameters: \<open>sha256_utf8 s\<close> is
  \<open>hashlib.sha256(s.encode('utf-8')).hexdigest()\<close>, \<open>py_lower\<close> is \<open>str.lower\<close>,
  \<open>remote n\<close> answers the request that \<open>n\<close> requests preceded, and \<open>latency n\<close> is the
  time that request takes, in seconds.
\<close>

record llm_env =
  sha256_utf8 :: "pystr \<Rightarrow> pystr"
  py_lower :: "pystr \<Rightarrow> pystr"
  remote :: "nat \<Rightarrow> request \<Rightarrow> api_result"
  latency :: "nat \<Rightarrow> nat"

text \<open>
  Modelled from the spec: the cache backend of Flask-Caching, which is not part of the
  repository. It is a key-value store with \<open>get\<close> and \<open>set\<close> in which an entry has a
  time-to-live: a key maps to its value and the time at which the entry expires.
\<close>

type_synonym cache = "pystr \<Rightarrow> (pystr \<times> nat) option"

definition cache_get :: "cache \<Rightarrow> nat \<Rightarrow> pystr \<Rightarrow> pystr option" where
  "cache_get c t k =
     (case c k of
        None \<Rightarrow> None
      | Some (v, expires) \<Rightarrow> if t < expires then Some v else None)"

definition cache_set :: "cache \<Rightarrow> nat \<Rightarrow> pystr \<Rightarrow> pystr \<Rightarrow> nat \<Rightarrow> cache" where
  "cache_set c t k v timeout = c(k \<mapsto> (v, t + timeout))"

text \<open>
  \<open>get_cache\<close> returns \<open>current_app.extensions.get('cache')\<close>. \<open>create_app\<close> runs
  \<open>cache.init_app(app)\<close>, and what Flask-Caching keeps under \<open>extensions['cache']\<close> is
  not the \<open>Cache\<close> object but a dict from each \<open>Cache\<close> instance (here a number) to its
  backend. The client calls \<open>get\<close> and \<open>set\<close> on that dict: \<open>dict.get\<close> with a str finds
  nothing, since no key of the dict is a str, and a dict has no \<open>set\<close>.
\<close>

type_synonym cache_registry = "(nat \<times> cache) list"

definition registry_get :: "cache_registry \<Rightarrow> pystr \<Rightarrow> pystr option" where
  "registry_get reg k = None"

definition registry_set ::
  "cache_registry \<Rightarrow> nat \<Rightarrow> pystr \<Rightarrow> pystr \<Rightarrow> nat \<Rightarrow> py_error + cache_registry" where
  "registry_set reg t k v timeout = Inl AttributeError"

text \<open>
  The state the client reads and changes: what \<open>get_cache()\<close> returns (\<open>None\<close> outside
  an application context or with no cache registered), the clock, and the requests sent
  so far.
\<close>

record app_state =
  cache :: "cache_registry option"
  now :: nat
  calls :: "request list"

subsection \<open>\<open>get_translation_cache_key\<close>\<close>

definition get_translation_cache_key :: "llm_env \<Rightarrow> pystr \<Rightarrow> pystr \<Rightarrow> pystr" where
  "get_translation_cache_key env text target_lang =
     sha256_utf8 env (text @ str ''_'' @ target_lang)"

subsection \<open>\<open>translate_with_llm\<close>\<close>

text \<open>
  The cache check at the head of the function: \<open>if cache\<close> is false for \<open>None\<close> and for
  an empty dict, and a falsy cached value is no hit.
\<close>

definition cached_translation :: "llm_env \<Rightarrow> app_state \<Rightarrow> pystr \<Rightarrow> pystr \<Rightarrow> pystr option" where
  "cached_translation env st text target_lang =
     (case cache st of
        None \<Rightarrow> None
      | Some reg \<Rightarrow>
          if reg = [] then None
          else
            (case registry_get reg (get_translation_cache_key env text target_lang) of
               None \<Rightarrow> None
             | Some cached_result \<Rightarrow> if cached_result \<noteq> [] then Some cached_result else None))"

text \<open>
  The cache write at the end of the function: \<open>cache.set(cache_key, translated_text,
  timeout=86400)\<close> inside a \<open>try\<close> whose \<open>except\<close> only logs.
\<close>

definition store_translation :: "llm_env \<Rightarrow> app_state \<Rightarrow> pystr \<Rightarrow> pystr \<Rightarrow> pystr \<Rightarrow> app_state" where
  "store_translation env st text target_lang translated_text =
     (case cache st of
        None \<Rightarrow> st
      | Some reg \<Rightarrow>
          if reg = [] then st
          else
            (case registry_set reg (now st) (get_translation_cache_key env text target_lang)
                    translated_text 86400 of
               Inl e \<Rightarrow> st
             | Inr reg' \<Rightarrow> st\<lparr>cache := Some reg'\<rparr>))"

text \<open>\<open>model or default\<close>, for a \<open>model\<close> that is \<open>None\<close> or a str.\<close>

definition model_or :: "pystr option \<Rightarrow> pystr \<Rightarrow> pystr" where
  "model_or model default_model =
     (case model of None \<Rightarrow> default_model | Some m \<Rightarrow> if m \<noteq> [] then m else default_model)"

text \<open>The credential, the endpoint and the model: Qwen if its key is set, else OpenAI.\<close>

definition resolve_credentials :: "config \<Rightarrow> pystr option \<Rightarrow> pystr \<times> pystr \<times> pystr" where
  "resolve_credentials cfg model =
     (if QWEN_API_KEY cfg \<noteq> [] then
        (QWEN_API_KEY cfg, QWEN_BASE_URL cfg, model_or model (QWEN_MODEL cfg))
      else
        (OPENAI_API_KEY cfg, OPENAI_BASE_URL cfg, model_or model (DEFAULT_MODEL cfg)))"

text \<open>\<open>lang_map.get(target_lang, target_lang)\<close>.\<close>

definition target_lang_name :: "pystr \<Rightarrow> pystr" where
  "target_lang_name target_lang =
     (if target_lang = str ''zh'' then [20013, 25991]
      else if target_lang = str ''en'' then str ''English''
      else if target_lang = str ''ja'' then [26085, 26412, 35486]
      else if target_lang = str ''ko'' then [54620, 44397, 50612]
      else target_lang)"

text \<open>The prompt: the two fixed parts of the f-string around the language name, then the text.\<close>

definition build_prompt :: "pystr \<Rightarrow> pystr \<Rightarrow> pystr" where
  "build_prompt target_lang text =
     [35831, 23558, 20197, 19979, 23398, 26415, 27573, 33853, 32763, 35793, 25104]
     @ target_lang_name target_lang
     @ [65292, 20445, 25345, 26415, 35821, 20934, 30830, 24615, 21644, 32467, 26500, 23436,
        25972, 24615, 65292, 19981, 35201, 28155, 21152, 20219, 20309, 35299, 37322, 25110,
        27880, 37322, 65306, 10, 10]
     @ text"

text \<open>
  The message of the exception that replaces one raised by the call, chosen by what
  \<open>str(api_error)\<close> contains.
\<close>

definition classify_api_error :: "llm_env \<Rightarrow> pystr \<Rightarrow> pystr \<Rightarrow> pystr" where
  "classify_api_error env default_model error_msg =
     (if sublist (str ''401'') error_msg \<or> sublist (str ''Unauthorized'') error_msg then
        str ''API'' @ [23494, 38053, 26080, 25928, 25110, 24050, 36807, 26399, 65292, 35831,
          26816, 26597] @ str ''QWEN_API_KEY'' @ [37197, 32622, 12290, 38169, 35823, 35814,
          24773] @ str '': '' @ error_msg
      else if sublist (str ''429'') error_msg
           \<or> sublist (str ''rate limit'') (py_lower env error_msg) then
        str ''API'' @ [35843, 29992, 39057, 29575, 36229, 38480, 65292, 35831, 31245, 21518,
          37325, 35797, 12290, 38169, 35823, 35814, 24773] @ str '': '' @ error_msg
      else if sublist (str ''timeout'') (py_lower env error_msg) then
        str ''API'' @ [35843, 29992, 36229, 26102, 65292, 35831, 26816, 26597, 32593, 32476,
          36830, 25509, 12290, 38169, 35823, 35814, 24773] @ str '': '' @ error_msg
      else if sublist (str ''model'') (py_lower env error_msg)
           \<and> sublist (str ''not found'') (py_lower env error_msg) then
        [27169, 22411, 19981, 23384, 22312] @ str '': '' @ default_model
        @ [65292, 35831, 26816, 26597] @ str ''QWEN_MODEL'' @ [37197, 32622, 12290, 38169,
          35823, 35814, 24773] @ str '': '' @ error_msg
      else str ''API'' @ [35843, 29992, 22833, 36133] @ str '': '' @ error_msg)"

text \<open>
  The outer \<open>except\<close>: whatever was raised inside the \<open>try\<close> is raised again as
  \<open>Exception(f"... {error_msg}")\<close>, the message prefixed, and prefixed with the name of
  the exception's type as well when it looks like the \<open>repr\<close> of an object.
\<close>

definition wrap_failure :: "pystr \<Rightarrow> pystr \<Rightarrow> pystr" where
  "wrap_failure type_name error_msg =
     [32763, 35793, 22833, 36133] @ str '': ''
     @ (if sublist (str ''<'') error_msg \<and> sublist (str ''object at 0x'') error_msg
        then type_name @ str '': '' @ error_msg
        else error_msg)"

text \<open>
  From the call to \<open>response.choices[0].message.content\<close>: the content, or the message
  of the exception raised on the way (\<open>None.strip()\<close> is an \<open>AttributeError\<close>).
\<close>

fun read_response :: "llm_env \<Rightarrow> pystr \<Rightarrow> api_result \<Rightarrow> pystr + pystr" where
  "read_response env default_model (Raises error_msg) =
     Inl (wrap_failure (str ''Exception'') (classify_api_error env default_model error_msg))"
| "read_response env default_model (Returns None) =
     Inl (wrap_failure (str ''Exception'')
            (str ''API'' @ [36820, 22238, 31354, 21709, 24212]))"
| "read_response env default_model (Returns (Some (Completion []))) =
     Inl (wrap_failure (str ''Exception'')
            (str ''API'' @ [36820, 22238, 31354, 21709, 24212]))"
| "read_response env default_model (Returns (Some (Completion (Choice None # others)))) =
     Inl (wrap_failure (str ''Exception'')
            (str ''API'' @ [21709, 24212, 26684, 24335, 38169, 35823, 65306, 32570, 23569]
             @ str ''message'' @ [23383, 27573]))"
| "read_response env default_model
     (Returns (Some (Completion (Choice (Some (Message None)) # others)))) =
     Inl (wrap_failure (str ''AttributeError'')
            ([39] @ str ''NoneType'' @ [39] @ str '' object has no attribute '' @ [39]
             @ str ''strip'' @ [39]))"
| "read_response env default_model
     (Returns (Some (Completion (Choice (Some (Message (Some content))) # others)))) =
     Inr content"

text \<open>
  The function: the translation or the message of the exception it raises, and the
  state it leaves. An empty translation gives the text back and is not passed to the
  cache.
\<close>

definition translate_with_llm ::
  "llm_env \<Rightarrow> config \<Rightarrow> app_state \<Rightarrow> pystr \<Rightarrow> pystr \<Rightarrow> pystr option
     \<Rightarrow> (pystr + pystr) \<times> app_state" where
  "translate_with_llm env cfg st text target_lang model =
     (if text = [] \<or> strip text = [] then (Inr text, st)
      else
        (case cached_translation env st text target_lang of
           Some cached_result \<Rightarrow> (Inr cached_result, st)
         | None \<Rightarrow>
             (case resolve_credentials cfg model of
                (key, url, default_model) \<Rightarrow>
                  if key = [] then (Inr text, st)
                  else
                    let req = \<lparr>api_key = key, base_url = url, model_name = default_model,
                               prompt = build_prompt target_lang text\<rparr>;
                        n = length (calls st);
                        st1 = st\<lparr>now := now st + latency env n, calls := calls st @ [req]\<rparr>
                    in
                      (case read_response env default_model (remote env n req) of
                         Inl error_msg \<Rightarrow> (Inl error_msg, st1)
                       | Inr content \<Rightarrow>
                           let translated_text = strip content in
                           if translated_text = [] then (Inr text, st1)
                           else
                             (Inr translated_text,
                              store_translation env st1 text target_lang
                                translated_text)))))"

section \<open>Batch translation (\<open>routes.py\<close>, the loop of \<open>translate_layout\<close>)\<close>

text \<open>The four variables the loop keeps beside the layout.\<close>

record counts =
  translated_count :: nat
  skipped_count :: nat
  failed_count :: nat
  first_error :: "pystr option"

text \<open>
  \<open>d[k] = v\<close>: an existing key keeps its place and gets the value, a new key goes to the
  end; only a dict takes a str as the key.
\<close>

fun dict_set :: "(pystr \<times> 'f json) list \<Rightarrow> pystr \<Rightarrow> 'f json \<Rightarrow> (pystr \<times> 'f json) list" where
  "dict_set [] k v = [(k, v)]"
| "dict_set ((k', v') # kvs) k v =
     (if k' = k then (k, v) # kvs else (k', v') # dict_set kvs k v)"

fun py_setitem :: "'f json \<Rightarrow> pystr \<Rightarrow> 'f json \<Rightarrow> py_error + 'f json" where
  "py_setitem (JObj kvs) k v = Inr (JObj (dict_set kvs k v))"
| "py_setitem d k v = Inl TypeError"

text \<open>
  One pass of \<open>for idx, block in enumerate(layout)\<close>. The call of the translator is the
  parameter \<open>tr\<close>: it gives the translation or the message of the exception, and the
  state it leaves. Reading the text is outside the \<open>try\<close>, so an exception there leaves
  the loop. In the \<open>except\<close> branch \<open>block.get('translated_text')\<close> is read again; the
  block is unchanged since the first reading, so \<open>existing\<close> is that value.
\<close>

definition translate_block ::
  "('s \<Rightarrow> pystr \<Rightarrow> (pystr + pystr) \<times> 's) \<Rightarrow> 'f float_ops \<Rightarrow> bool \<Rightarrow> 'f json \<Rightarrow> 's \<times> counts
     \<Rightarrow> py_error + ('f json \<times> 's \<times> counts)" where
  "translate_block tr fo force_retranslate block sc =
     (case sc of (st, c) \<Rightarrow>
        ebind (py_get block (str ''text'') (JStr [])) (\<lambda>raw.
        ebind (py_strip raw) (\<lambda>text.
        if text = [] then Inr (block, st, c)
        else
          ebind (py_get block (str ''translated_text'') JNull) (\<lambda>existing.
          if \<not> force_retranslate \<and> py_truthy fo existing then
            Inr (block, st, c\<lparr>skipped_count := skipped_count c + 1\<rparr>)
          else
            (case tr st text of
               (Inr translated_text, st') \<Rightarrow>
                 ebind (py_setitem block (str ''translated_text'') (JStr translated_text))
                   (\<lambda>block'.
                 Inr (block', st', c\<lparr>translated_count := translated_count c + 1\<rparr>))
             | (Inl error_msg, st') \<Rightarrow>
                 let c1 = c\<lparr>failed_count := failed_count c + 1\<rparr>;
                     c2 = (if failed_count c1 = 1 then c1\<lparr>first_error := Some error_msg\<rparr>
                           else c1)
                 in
                   if \<not> py_truthy fo existing then
                     ebind (py_setitem block (str ''translated_text'') (JStr text)) (\<lambda>block'.
                     Inr (block', st', c2))
                   else Inr (block, st', c2))))))"

fun translate_layout_loop ::
  "('s \<Rightarrow> pystr \<Rightarrow> (pystr + pystr) \<times> 's) \<Rightarrow> 'f float_ops \<Rightarrow> bool \<Rightarrow> 'f json list \<Rightarrow> 's \<times> counts
     \<Rightarrow> py_error + ('f json list \<times> 's \<times> counts)" where
  "translate_layout_loop tr fo force_retranslate [] sc = Inr ([], sc)"
| "translate_layout_loop tr fo force_retranslate (block # blocks) sc =
     ebind (translate_block tr fo force_retranslate block sc) (\<lambda>(block', sc').
     ebind (translate_layout_loop tr fo force_retranslate blocks sc') (\<lambda>(blocks', sc'').
     Inr (block' # blocks', sc'')))"

text \<open>
  The loop as the handler runs it: the counters start at zero, and every block is
  translated by \<open>translate_with_llm(text, target_lang=target_lang, model=model)\<close>.
\<close>

definition translate_layout ::
  "llm_env \<Rightarrow> config \<Rightarrow> 'f float_ops \<Rightarrow> app_state \<Rightarrow> 'f json list \<Rightarrow> pystr \<Rightarrow> pystr option \<Rightarrow> bool
     \<Rightarrow> py_error + ('f json list \<times> app_state \<times> counts)" where
  "translate_layout env cfg fo st layout target_lang model force_retranslate =
     translate_layout_loop
       (\<lambda>st' text. translate_with_llm env cfg st' text target_lang model)
       fo force_retranslate layout
       (st, \<lparr>translated_count = 0, skipped_count = 0, failed_count = 0, first_error = None\<rparr>)"

section \<open>Waiting for a remote task (\<open>mineru_api.py\<close>, \<open>wait_for_task_completion\<close>)\<close>

text \<open>
  What the function raises: the exception of \<open>get_task_result\<close> (with its message),
  the \<open>AttributeError\<close> of \<open>result.get\<close> on a result that is no dict, the failure of the
  task (with \<open>err_msg\<close>), the timeout (with \<open>max_wait_time\<close>), and the \<open>AttributeError\<close>
  of \<open>progress.get\<close> on a truthy \<open>extract_progress\<close> that is no dict.
\<close>

datatype 'f wait_error =
    QueryRaised pystr
  | ResultNotDict
  | TaskFailed "'f json"
  | TaskTimeout nat
  | ProgressNotDict

text \<open>
  After the timeout test, the branch of the running states reads the progress for the
  log: \<open>progress = result.get('extract_progress', {})\<close> and, when \<open>progress\<close> is truthy,
  \<open>progress.get('extracted_pages', 0)\<close> and \<open>progress.get('total_pages', 0)\<close>. This is
  whether those calls raise.
\<close>

definition progress_raises :: "'f float_ops \<Rightarrow> 'f json \<Rightarrow> bool" where
  "progress_raises fo result =
     (case py_get result (str ''extract_progress'') (JObj []) of
        Inl e \<Rightarrow> True
      | Inr progress \<Rightarrow> py_truthy fo progress \<and> \<not> is_dict progress)"

text \<open>
  The loop. \<open>get_task_result n\<close> is the \<open>n\<close>-th query: what it raises or returns, and
  the seconds it takes. The clock counts seconds; \<open>time.sleep(poll_interval)\<close> adds
  \<open>poll_interval\<close> to it. The loop has no bound of its own, so the value is \<open>None\<close> when
  it never ends.
\<close>

partial_function (option) wait_loop ::
  "'f float_ops \<Rightarrow> (nat \<Rightarrow> (pystr + 'f json) \<times> nat) \<Rightarrow> nat \<Rightarrow> nat \<Rightarrow> nat \<Rightarrow> nat \<Rightarrow> nat
     \<Rightarrow> (('f wait_error + 'f json) \<times> nat) option" where
  "wait_loop fo get_task_result start_time max_wait_time poll_interval n clock =
     (case get_task_result n of
        (Inl error_msg, d) \<Rightarrow> Some (Inl (QueryRaised error_msg), clock + d)
      | (Inr result, d) \<Rightarrow>
          (case py_get result (str ''state'') (JStr []) of
             Inl e \<Rightarrow> Some (Inl ResultNotDict, clock + d)
           | Inr state \<Rightarrow>
               if state = JStr (str ''done'') then Some (Inr result, clock + d)
               else if state = JStr (str ''failed'') then
                 (case py_get result (str ''err_msg'')
                         (JStr [35299, 26512, 22833, 36133]) of
                    Inl e \<Rightarrow> Some (Inl ResultNotDict, clock + d)
                  | Inr err_msg \<Rightarrow> Some (Inl (TaskFailed err_msg), clock + d))
               else if state = JStr (str ''pending'') \<or> state = JStr (str ''running'')
                       \<or> state = JStr (str ''converting'') then
                 if clock + d - start_time > max_wait_time then
                   Some (Inl (TaskTimeout max_wait_time), clock + d)
                 else if progress_raises fo result then
                   Some (Inl ProgressNotDict, clock + d)
                 else
                   wait_loop fo get_task_result start_time max_wait_time poll_interval
                     (n + 1) (clock + d + poll_interval)
               else
                 wait_loop fo get_task_result start_time max_wait_time poll_interval
                   (n + 1) (clock + d + poll_interval)))"

text \<open>\<open>start_time = time.time()\<close>, then the loop from the first query.\<close>

definition wait_for_task_completion ::
  "'f float_ops \<Rightarrow> (nat \<Rightarrow> (pystr + 'f json) \<times> nat) \<Rightarrow> nat \<Rightarrow> nat \<Rightarrow> nat
     \<Rightarrow> (('f wait_error + 'f json) \<times> nat) option" where
  "wait_for_task_completion fo get_task_result clock max_wait_time poll_interval =
     wait_loop fo get_task_result clock max_wait_time poll_interval 0 clock"

section \<open>Notions the properties are stated with\<close>








text \<open>
  What happens to one block in a batch pass, in the words of the description of the
  batch operation: a block without text is passed over, a block that carries a
  translation is skipped unless retranslation is forced, and for every other block the
  translator is called, which translates or fails with a message.
\<close>

datatype outcome = NoText | Skipped | Translated pystr | Failed pystr

text \<open>The trimmed text of a block, and whether it carries a truthy \<open>translated_text\<close>.\<close>

definition block_text :: "'f json \<Rightarrow> pystr" where
  "block_text block =
     (case ebind (py_get block (str ''text'') (JStr [])) py_strip of
        Inl e \<Rightarrow> []
      | Inr text \<Rightarrow> text)"

definition has_translation :: "'f float_ops \<Rightarrow> 'f json \<Rightarrow> bool" where
  "has_translation fo block =
     (case py_get block (str ''translated_text'') JNull of
        Inl e \<Rightarrow> False
      | Inr existing \<Rightarrow> py_truthy fo existing)"

definition block_outcome ::
  "('s \<Rightarrow> pystr \<Rightarrow> (pystr + pystr) \<times> 's) \<Rightarrow> 'f float_ops \<Rightarrow> bool \<Rightarrow> 'f json \<Rightarrow> 's
     \<Rightarrow> outcome \<times> 's" where
  "block_outcome tr fo force_retranslate block st =
     (if block_text block = [] then (NoText, st)
      else if \<not> force_retranslate \<and> has_translation fo block then (Skipped, st)
      else
        (case tr st (block_text block) of
           (Inr translated_text, st') \<Rightarrow> (Translated translated_text, st')
         | (Inl error_msg, st') \<Rightarrow> (Failed error_msg, st')))"

text \<open>
  The outcomes of all blocks of a layout, in order: every block has one, and the
  translator is called for a block in the state the calls before it have left, whether
  they failed or not.
\<close>

fun outcomes ::
  "('s \<Rightarrow> pystr \<Rightarrow> (pystr + pystr) \<times> 's) \<Rightarrow> 'f float_ops \<Rightarrow> bool \<Rightarrow> 'f json list \<Rightarrow> 's
     \<Rightarrow> outcome list" where
  "outcomes tr fo force_retranslate [] st = []"
| "outcomes tr fo force_retranslate (block # blocks) st =
     fst (block_outcome tr fo force_retranslate block st)
     # outcomes tr fo force_retranslate blocks
         (snd (block_outcome tr fo force_retranslate block st))"

text \<open>The messages of the failures, in order, and the tests for the other outcomes.\<close>

fun failure_message :: "outcome \<Rightarrow> pystr option" where
  "failure_message (Failed error_msg) = Some error_msg"
| "failure_message other = None"

definition failures :: "outcome list \<Rightarrow> pystr list" where
  "failures os = List.map_filter failure_message os"

fun is_translated :: "outcome \<Rightarrow> bool" where
  "is_translated (Translated translated_text) = True"
| "is_translated other = False"

fun is_skipped :: "outcome \<Rightarrow> bool" where
  "is_skipped Skipped = True"
| "is_skipped other = False"

text \<open>
  The block after its outcome: a translation is stored as \<open>translated_text\<close>; after a
  failure a block that carries no truthy \<open>translated_text\<close> gets its trimmed text there;
  otherwise the block is as it was.
\<close>

definition with_translation :: "'f json \<Rightarrow> pystr \<Rightarrow> 'f json" where
  "with_translation block t =
     (case block of
        JObj kvs \<Rightarrow> JObj (dict_set kvs (str ''translated_text'') (JStr t))
      | other \<Rightarrow> other)"

fun apply_outcome :: "'f float_ops \<Rightarrow> 'f json \<Rightarrow> outcome \<Rightarrow> 'f json" where
  "apply_outcome fo block NoText = block"
| "apply_outcome fo block Skipped = block"
| "apply_outcome fo block (Translated translated_text) = with_translation block translated_text"
| "apply_outcome fo block (Failed error_msg) =
     (if has_translation fo block then block else with_translation block (block_text block))"

text \<open>
  A configuration with the Qwen key set, and two services for the examples: one that
  raises on the third request and answers every other request with \<open>"ok"\<close>, and one
  that raises on every request. Their messages are lower case, on which \<open>str.lower\<close>
  is the identity; the hash is not reached, since the examples run without a cache.
\<close>

definition demo_config :: config where
  "demo_config =
     \<lparr>QWEN_API_KEY = str ''k'', QWEN_BASE_URL = str ''u'', QWEN_MODEL = str ''m'',
      OPENAI_API_KEY = [], OPENAI_BASE_URL = [], DEFAULT_MODEL = []\<rparr>"

definition third_call_fails :: llm_env where
  "third_call_fails =
     \<lparr>sha256_utf8 = (\<lambda>s. s), py_lower = (\<lambda>s. s),
      remote = (\<lambda>n req.
        if n = 2 then Raises (str ''boom'')
        else Returns (Some (Completion [Choice (Some (Message (Some (str ''ok''))))]))),
      latency = (\<lambda>n. 1)\<rparr>"

definition every_call_fails :: llm_env where
  "every_call_fails =
     \<lparr>sha256_utf8 = (\<lambda>s. s), py_lower = (\<lambda>s. s),
      remote = (\<lambda>n req. Raises (str ''boom'')),
      latency = (\<lambda>n. 1)\<rparr>"

section \<open>Properties of the layout normalizer\<close>

text \<open>
  C10: on the input
  \<open>{"pdf_info":[{"page_idx":0,"para_blocks":[{"type":"title","bbox":[0,0,100,20],
  "lines":[{"spans":[{"content":"Intro"}]}]}]}]}\<close>
  the normalizer returns exactly the one-element list
  \<open>[{"page":1,"bbox":[0,0,100,20],"text":"Intro","type":"title"}]\<close>.
\<close>

theorem end_to_end_pdf_info:
  "parse_mineru_layout_from_data fo
     (JObj [(str ''pdf_info'', JList [JObj [
        (str ''page_idx'', JInt 0),
        (str ''para_blocks'', JList [JObj [
           (str ''type'', JStr (str ''title'')),
           (str ''bbox'', JList [JInt 0, JInt 0, JInt 100, JInt 20]),
           (str ''lines'', JList [JObj [
              (str ''spans'', JList [JObj [(str ''content'', JStr (str ''Intro''))]])]])]])]])])
   = [\<lparr>blk_page = JInt 1, blk_bbox = JList [JInt 0, JInt 0, JInt 100, JInt 20],
       blk_text = str ''Intro'', blk_type = JStr (str ''title'')\<rparr>]"
  by (simp add: parse_mineru_layout_from_data_def parse_body_def parse_pdf_info_def
      pdf_page_def para_block_def line_spans_def span_content_def py_join_def ebind_def
      str_def strip_def py_isspace_def)

subsection \<open>\<open>strip\<close>\<close>

lemma strip_Nil [simp]: "strip [] = []"
  by (simp add: strip_def)

lemma strip_blank: "\<forall>c\<in>set s. py_isspace c \<Longrightarrow> strip s = []"
  by (auto simp: strip_def dest: set_dropWhileD)


subsection \<open>Exceptions and loops\<close>

lemma ebind_Inl [simp]: "ebind (Inl e) f = Inl e"
  by (simp add: ebind_def)

lemma ebind_Inr [simp]: "ebind (Inr x) f = f x"
  by (simp add: ebind_def)



lemma for_each_raises:
  "x \<in> set xs \<Longrightarrow> body x = Inl e \<Longrightarrow> \<exists>e'. for_each body xs = Inl e'"
proof (induction xs)
  case Nil
  then show ?case by simp
next
  case (Cons a xs)
  show ?case
  proof (cases "body a")
    case (Inl e1)
    then show ?thesis by simp
  next
    case (Inr us)
    with Cons have "x \<in> set xs" by auto
    from Cons.IH [OF this Cons.prems(2)] obtain e' where "for_each body xs = Inl e'" ..
    with Inr show ?thesis by simp
  qed
qed

subsection \<open>The order of the tests\<close>

lemma content_item_not_dict: "\<not> is_dict item \<Longrightarrow> content_item fo item = Inl AttributeError"
  by (cases item) (simp_all add: content_item_def)

lemma is_content_item_not_list: "is_content_item first_item \<Longrightarrow> \<not> is_list first_item"
  by (cases first_item) (simp_all add: is_content_item_def)

lemma parse_body_flat:
  "JStr (str ''pdf_info'') \<notin> set (first_item # rest) \<Longrightarrow> is_content_item first_item \<Longrightarrow>
   parse_body fo (JList (first_item # rest)) = parse_content_list fo (first_item # rest)"
  by (simp add: parse_body_def)

lemma parse_body_pdf_info_in_list:
  "JStr (str ''pdf_info'') \<in> set items \<Longrightarrow> parse_body fo (JList items) = Inl AttributeError"
  by (cases items) (simp_all add: parse_body_def parse_pdf_info_def)

lemma parse_content_list_str_item:
  "JStr s \<in> set items \<Longrightarrow> \<exists>e. parse_content_list fo items = Inl e"
  unfolding parse_content_list_def
  by (rule for_each_raises [where body = "content_item fo" and x = "JStr s"])
     (simp_all add: content_item_not_dict)

text \<open>
  C7: for a list whose first element is a dict with both a \<open>text\<close> and a \<open>page_idx\<close> key,
  what the normalizer returns is what the loop of format 2 over the list produces (the
  empty list when that loop raises). The test for format 2 stands before the test for
  format 3, and a first element that passes it is no list, so such an input never
  reaches the loop of format 3. One case takes another path to the same result: when
  some element of the list is the string \<open>"pdf_info"\<close>, the test \<open>"pdf_info" in
  mineru_data\<close> holds and \<open>mineru_data.get\<close> raises; the loop of format 2 raises on that
  element as well (a str has no \<open>get\<close>), and both give the empty list.
\<close>

theorem flat_item_detected_first:
  assumes "is_content_item first_item"
  shows "parse_mineru_layout_from_data fo (JList (first_item # rest))
           = (case parse_content_list fo (first_item # rest) of
                Inl e \<Rightarrow> [] | Inr layout \<Rightarrow> layout)
         \<and> \<not> is_list first_item"
proof (cases "JStr (str ''pdf_info'') \<in> set (first_item # rest)")
  case False
  from parse_body_flat [OF False assms]
  show ?thesis
    using assms by (simp add: parse_mineru_layout_from_data_def is_content_item_not_list)
next
  case True
  from parse_content_list_str_item [OF True] obtain e where
    "parse_content_list fo (first_item # rest) = Inl e"
    by blast
  moreover note parse_body_pdf_info_in_list [OF True, of fo]
  ultimately show ?thesis
    using assms by (simp add: parse_mineru_layout_from_data_def is_content_item_not_list)
qed


theorem flat_item_detected_first_witness:
  "\<forall>fo.
     is_content_item (JObj [(str ''text'', JStr (str ''Hello'')), (str ''page_idx'', JInt 0),
        (str ''bbox'', JList [JInt 0, JInt 0, JInt 1, JInt 1])])
   \<and> parse_mineru_layout_from_data fo
       (JList [JObj [(str ''text'', JStr (str ''Hello'')), (str ''page_idx'', JInt 0),
          (str ''bbox'', JList [JInt 0, JInt 0, JInt 1, JInt 1])]])
     = [\<lparr>blk_page = JInt 1, blk_bbox = JList [JInt 0, JInt 0, JInt 1, JInt 1],
         blk_text = str ''Hello'', blk_type = JStr (str ''text'')\<rparr>]
   \<and> parse_mineru_layout_from_data fo
       (JList [JObj [(str ''text'', JStr (str ''Hello'')), (str ''page_idx'', JInt 0),
          (str ''bbox'', JList [JInt 0, JInt 0, JInt 1, JInt 1])],
          JList [JObj [(str ''content'', JStr (str ''World'')),
            (str ''bbox'', JList [JInt 0, JInt 0, JInt 1, JInt 1])]]])
     = []"
  (is "\<forall>fo. ?P fo")
proof (rule allI)
  fix fo
  show "?P fo"
    using
      flat_item_detected_first [of "JObj [(str ''text'', JStr (str ''Hello'')),
        (str ''page_idx'', JInt 0), (str ''bbox'', JList [JInt 0, JInt 0, JInt 1, JInt 1])]"
        fo "[]"]
      flat_item_detected_first [of "JObj [(str ''text'', JStr (str ''Hello'')),
        (str ''page_idx'', JInt 0), (str ''bbox'', JList [JInt 0, JInt 0, JInt 1, JInt 1])]"
        fo "[JList [JObj [(str ''content'', JStr (str ''World'')),
            (str ''bbox'', JList [JInt 0, JInt 0, JInt 1, JInt 1])]]]"]
    by (simp add: is_content_item_def parse_content_list_def content_item_def str_def
        strip_def py_isspace_def)
qed

subsection \<open>Format 4: how the page number and the bbox are resolved\<close>














subsection \<open>What every emitted block satisfies\<close>




















section \<open>Properties of the translation client\<close>

text \<open>
  C9: for a text that is empty or consists only of whitespace, \<open>translate_with_llm\<close>
  returns the text unchanged and leaves the state as it was, so no request is sent,
  whatever the target language.
\<close>

theorem translate_blank_noop:
  "text = [] \<or> (\<forall>c\<in>set text. py_isspace c) \<Longrightarrow>
   translate_with_llm env cfg st text target_lang model = (Inr text, st)
   \<and> calls (snd (translate_with_llm env cfg st text target_lang model)) = calls st"
  by (auto simp: translate_with_llm_def strip_blank)

theorem translate_blank_noop_witness:
  "\<forall>env cfg st model.
     translate_with_llm env cfg st (str '''') (str ''zh'') model = (Inr (str ''''), st)
   \<and> translate_with_llm env cfg st (str ''   '') (str ''zh'') model = (Inr (str ''   ''), st)"
  using translate_blank_noop [of "str ''''"] translate_blank_noop [of "str ''   ''"]
  by (simp add: str_def py_isspace_def)

text \<open>
  The lookup by the client never hits and the write never stores, whatever the state:
  both go to the dict that \<open>get_cache\<close> returns.
\<close>

lemma cached_translation_never_hits: "cached_translation env st text target_lang = None"
  by (simp add: cached_translation_def registry_get_def split: option.splits)

lemma store_translation_stores_nothing:
  "store_translation env st text target_lang translated_text = st"
  by (simp add: store_translation_def registry_set_def split: option.splits)

text \<open>
  C6: the cache key is the hash of \<open>text + "_" + target_lang\<close>, which does not determine
  the pair: \<open>("a_b", "c")\<close> and \<open>("a", "b_c")\<close> are different pairs with the same key,
  whatever the hash function. So in a key-value store, an entry written under the key of
  the first pair is what a lookup under the key of the second pair finds.
\<close>

theorem cache_key_collision:
  "get_translation_cache_key env (str ''a_b'') (str ''c'')
     = get_translation_cache_key env (str ''a'') (str ''b_c'')
   \<and> (str ''a_b'', str ''c'') \<noteq> (str ''a'', str ''b_c'')
   \<and> cache_get
         (cache_set c t (get_translation_cache_key env (str ''a_b'') (str ''c'')) v 86400)
         t (get_translation_cache_key env (str ''a'') (str ''b_c''))
       = Some v"
  by (simp add: get_translation_cache_key_def str_def cache_get_def cache_set_def)

text \<open>
  C5: a second call with the same text and target language within 24 hours is to be
  answered from the cache, without a request. In an application set up by \<open>create_app\<close>
  (one \<open>Cache\<close> instance registered, a credential configured, the service answering
  with a translation), two calls of \<open>translate_with_llm("Hello world", "zh")\<close> send two
  requests: the first call stores nothing, so the second finds nothing.
\<close>

theorem translate_twice_sends_twice:
  "(let env = \<lparr>sha256_utf8 = H, py_lower = L,
                remote = (\<lambda>n req. Returns (Some (Completion
                   [Choice (Some (Message (Some [20320, 22909, 19990, 30028])))]))),
                latency = (\<lambda>n. 2)\<rparr>;
         cfg = \<lparr>QWEN_API_KEY = str ''k'', QWEN_BASE_URL = str ''u'', QWEN_MODEL = str ''m'',
                OPENAI_API_KEY = [], OPENAI_BASE_URL = [], DEFAULT_MODEL = []\<rparr>;
         req = \<lparr>api_key = str ''k'', base_url = str ''u'', model_name = str ''m'',
                prompt = build_prompt (str ''zh'') (str ''Hello world'')\<rparr>;
         st = \<lparr>cache = Some [(0, backend)], now = 0, calls = []\<rparr>;
         st1 = snd (translate_with_llm env cfg st (str ''Hello world'') (str ''zh'') None);
         st2 = snd (translate_with_llm env cfg st1 (str ''Hello world'') (str ''zh'') None)
     in fst (translate_with_llm env cfg st (str ''Hello world'') (str ''zh'') None)
          = Inr [20320, 22909, 19990, 30028]
      \<and> fst (translate_with_llm env cfg st1 (str ''Hello world'') (str ''zh'') None)
          = Inr [20320, 22909, 19990, 30028]
      \<and> calls st1 = [req]
      \<and> calls st2 = [req, req]
      \<and> cache st2 = cache st)"
  by (simp add: translate_with_llm_def cached_translation_never_hits
      store_translation_stores_nothing resolve_credentials_def model_or_def str_def
      strip_def py_isspace_def Let_def)

text \<open>
  C8: for a text that is not blank and not answered from the cache: with the Qwen key
  configured, the one request sent carries the Qwen key, endpoint and model; without
  it but with the OpenAI key, the request carries the OpenAI key, endpoint and model;
  with neither, the text is returned unchanged. With neither key the function never
  raises and never sends a request, whatever the cache holds.
\<close>

theorem credential_resolution:
  assumes "strip text \<noteq> []"
  shows "(cached_translation env st text target_lang = None \<and> QWEN_API_KEY cfg \<noteq> [] \<longrightarrow>
            calls (snd (translate_with_llm env cfg st text target_lang model))
              = calls st @ [\<lparr>api_key = QWEN_API_KEY cfg, base_url = QWEN_BASE_URL cfg,
                   model_name = model_or model (QWEN_MODEL cfg),
                   prompt = build_prompt target_lang text\<rparr>])
       \<and> (cached_translation env st text target_lang = None \<and> QWEN_API_KEY cfg = []
            \<and> OPENAI_API_KEY cfg \<noteq> [] \<longrightarrow>
            calls (snd (translate_with_llm env cfg st text target_lang model))
              = calls st @ [\<lparr>api_key = OPENAI_API_KEY cfg, base_url = OPENAI_BASE_URL cfg,
                   model_name = model_or model (DEFAULT_MODEL cfg),
                   prompt = build_prompt target_lang text\<rparr>])
       \<and> (QWEN_API_KEY cfg = [] \<and> OPENAI_API_KEY cfg = [] \<longrightarrow>
            (\<exists>v. translate_with_llm env cfg st text target_lang model = (Inr v, st))
            \<and> (cached_translation env st text target_lang = None \<longrightarrow>
                 translate_with_llm env cfg st text target_lang model = (Inr text, st)))"
  using assms
  by (auto simp: translate_with_llm_def resolve_credentials_def Let_def
      store_translation_stores_nothing split: option.splits sum.splits)


theorem credential_resolution_witness:
  "\<forall>env.
     (let st = \<lparr>cache = None, now = 0, calls = []\<rparr>;
          qwen = \<lparr>QWEN_API_KEY = str ''q'', QWEN_BASE_URL = str ''qu'', QWEN_MODEL = str ''qm'',
                  OPENAI_API_KEY = str ''o'', OPENAI_BASE_URL = str ''ou'',
                  DEFAULT_MODEL = str ''om''\<rparr>;
          openai = qwen\<lparr>QWEN_API_KEY := []\<rparr>;
          neither = openai\<lparr>OPENAI_API_KEY := []\<rparr>
      in calls (snd (translate_with_llm env qwen st (str ''Hi'') (str ''zh'') None))
           = [\<lparr>api_key = str ''q'', base_url = str ''qu'', model_name = str ''qm'',
               prompt = build_prompt (str ''zh'') (str ''Hi'')\<rparr>]
       \<and> calls (snd (translate_with_llm env openai st (str ''Hi'') (str ''zh'') None))
           = [\<lparr>api_key = str ''o'', base_url = str ''ou'', model_name = str ''om'',
               prompt = build_prompt (str ''zh'') (str ''Hi'')\<rparr>]
       \<and> translate_with_llm env neither st (str ''Hi'') (str ''zh'') None = (Inr (str ''Hi''), st))"
proof (intro allI)
  fix env :: llm_env
  define st where "st = \<lparr>cache = None, now = 0, calls = []\<rparr>"
  have a1: "strip (str ''Hi'') \<noteq> []"
    by (simp add: str_def strip_def py_isspace_def)
  have miss: "cached_translation env st (str ''Hi'') (str ''zh'') = None"
    by (simp add: st_def cached_translation_def)
  have k: "str ''q'' \<noteq> []" "str ''o'' \<noteq> []"
    by (simp_all add: str_def)
  show "let st = \<lparr>cache = None, now = 0, calls = []\<rparr>;
          qwen = \<lparr>QWEN_API_KEY = str ''q'', QWEN_BASE_URL = str ''qu'', QWEN_MODEL = str ''qm'',
                  OPENAI_API_KEY = str ''o'', OPENAI_BASE_URL = str ''ou'',
                  DEFAULT_MODEL = str ''om''\<rparr>;
          openai = qwen\<lparr>QWEN_API_KEY := []\<rparr>;
          neither = openai\<lparr>OPENAI_API_KEY := []\<rparr>
      in calls (snd (translate_with_llm env qwen st (str ''Hi'') (str ''zh'') None))
           = [\<lparr>api_key = str ''q'', base_url = str ''qu'', model_name = str ''qm'',
               prompt = build_prompt (str ''zh'') (str ''Hi'')\<rparr>]
       \<and> calls (snd (translate_with_llm env openai st (str ''Hi'') (str ''zh'') None))
           = [\<lparr>api_key = str ''o'', base_url = str ''ou'', model_name = str ''om'',
               prompt = build_prompt (str ''zh'') (str ''Hi'')\<rparr>]
       \<and> translate_with_llm env neither st (str ''Hi'') (str ''zh'') None = (Inr (str ''Hi''), st)"
    unfolding Let_def st_def [symmetric]
    using miss k
      credential_resolution [OF a1, of env st "str ''zh''"
        "\<lparr>QWEN_API_KEY = str ''q'', QWEN_BASE_URL = str ''qu'', QWEN_MODEL = str ''qm'',
          OPENAI_API_KEY = str ''o'', OPENAI_BASE_URL = str ''ou'', DEFAULT_MODEL = str ''om''\<rparr>" None]
      credential_resolution [OF a1, of env st "str ''zh''"
        "\<lparr>QWEN_API_KEY = [], QWEN_BASE_URL = str ''qu'', QWEN_MODEL = str ''qm'',
          OPENAI_API_KEY = str ''o'', OPENAI_BASE_URL = str ''ou'', DEFAULT_MODEL = str ''om''\<rparr>" None]
      credential_resolution [OF a1, of env st "str ''zh''"
        "\<lparr>QWEN_API_KEY = [], QWEN_BASE_URL = str ''qu'', QWEN_MODEL = str ''qm'',
          OPENAI_API_KEY = [], OPENAI_BASE_URL = str ''ou'', DEFAULT_MODEL = str ''om''\<rparr>" None]
    by (simp add: model_or_def st_def)
qed

section \<open>Properties of \<open>wait_for_task_completion\<close>\<close>



text \<open>
  When every query reports a state outside the five the function knows, the loop only
  sleeps and queries again.
\<close>

lemma wait_loop_unknown_state:
  assumes unknown: "\<And>n. \<exists>result d state. get_task_result n = (Inr result, d)
      \<and> py_get result (str ''state'') (JStr []) = Inr state
      \<and> state \<noteq> JStr (str ''done'') \<and> state \<noteq> JStr (str ''failed'')
      \<and> state \<noteq> JStr (str ''pending'') \<and> state \<noteq> JStr (str ''running'')
      \<and> state \<noteq> JStr (str ''converting'')"
  shows "wait_loop fo get_task_result start_time max_wait_time poll_interval n clock = None"
proof (rule ccontr)
  assume "wait_loop fo get_task_result start_time max_wait_time poll_interval n clock \<noteq> None"
  then obtain y where y: "wait_loop fo get_task_result start_time max_wait_time poll_interval n clock = Some y"
    by auto
  have "get_task_result = get_task_result \<longrightarrow> False"
  proof (rule wait_loop.raw_induct [where P = "\<lambda>fo' g s m i n c y. g = get_task_result \<longrightarrow> False", OF _ y])
    fix loop fo' g s m i k c z
    assume IH: "\<And>fo' g s m i n c y. loop fo' g s m i n c = Some y \<Longrightarrow> g = get_task_result \<longrightarrow> False"
      and step: "(case g k of
        (Inl error_msg, d) \<Rightarrow> Some (Inl (QueryRaised error_msg), c + d)
      | (Inr result, d) \<Rightarrow>
          (case py_get result (str ''state'') (JStr []) of
             Inl e \<Rightarrow> Some (Inl ResultNotDict, c + d)
           | Inr state \<Rightarrow>
               if state = JStr (str ''done'') then Some (Inr result, c + d)
               else if state = JStr (str ''failed'') then
                 (case py_get result (str ''err_msg'')
                         (JStr [35299, 26512, 22833, 36133]) of
                    Inl e \<Rightarrow> Some (Inl ResultNotDict, c + d)
                  | Inr err_msg \<Rightarrow> Some (Inl (TaskFailed err_msg), c + d))
               else if state = JStr (str ''pending'') \<or> state = JStr (str ''running'')
                       \<or> state = JStr (str ''converting'') then
                 if c + d - s > m then
                   Some (Inl (TaskTimeout m), c + d)
                 else if progress_raises fo' result then
                   Some (Inl ProgressNotDict, c + d)
                 else
                   loop fo' g s m i (k + 1) (c + d + i)
               else
                 loop fo' g s m i (k + 1) (c + d + i))) = Some z"
    show "g = get_task_result \<longrightarrow> False"
    proof
      assume g: "g = get_task_result"
      from unknown [of k] obtain result d state where
        "get_task_result k = (Inr result, d)"
        "py_get result (str ''state'') (JStr []) = Inr state"
        "state \<noteq> JStr (str ''done'')" "state \<noteq> JStr (str ''failed'')"
        "state \<noteq> JStr (str ''pending'')" "state \<noteq> JStr (str ''running'')"
        "state \<noteq> JStr (str ''converting'')"
        by blast
      with step g have "loop fo' get_task_result s m i (k + 1) (c + d + i) = Some z"
        by simp
      with IH show False by blast
    qed
  qed
  then show False by simp
qed

text \<open>
  C2: a timeout is to be raised once the elapsed time exceeds \<open>max_wait_time\<close> whenever no
  query reports \<open>done\<close> or \<open>failed\<close>, unrecognised states included. The function compares
  the elapsed time with \<open>max_wait_time\<close> only in the branch of the states \<open>pending\<close>,
  \<open>running\<close> and \<open>converting\<close>. When every query reports an unrecognised state, here
  \<open>"queued"\<close> with \<open>max_wait_time = 1\<close> and \<open>poll_interval = 1\<close>, the loop never ends: the
  function returns nothing and raises nothing.
\<close>

theorem wait_unknown_state_never_returns:
  "wait_for_task_completion fo (\<lambda>n. (Inr (JObj [(str ''state'', JStr (str ''queued''))]), 0)) 0 1 1
     = None"
  unfolding wait_for_task_completion_def
  by (rule wait_loop_unknown_state) (simp add: str_def)

text \<open>
  With \<open>max_wait_time = 1\<close>, \<open>poll_interval = 1\<close> and queries that always report
  \<open>running\<close> (and take no time), the timeout is raised at the third query, two seconds
  after the start.
\<close>

lemma wait_running_times_out:
  "wait_for_task_completion fo (\<lambda>n. (Inr (JObj [(str ''state'', JStr (str ''running''))]), 0)) 0 1 1
     = Some (Inl (TaskTimeout 1), 2)"
  unfolding wait_for_task_completion_def
  apply (subst wait_loop.simps)
  apply (simp add: str_def progress_raises_def)
  apply (subst wait_loop.simps)
  apply (simp add: str_def progress_raises_def)
  apply (subst wait_loop.simps)
  apply (simp add: str_def progress_raises_def)
  done


text \<open>
  When every query reports one of the three recognised running states, with an
  \<open>extract_progress\<close> that is a dict or falsy, and the polling interval is positive, the
  loop ends with the timeout.
\<close>

lemma wait_loop_recognised_times_out:
  assumes running: "\<And>n. \<exists>result d state. get_task_result n = (Inr result, d)
      \<and> py_get result (str ''state'') (JStr []) = Inr state
      \<and> (state = JStr (str ''pending'') \<or> state = JStr (str ''running'')
           \<or> state = JStr (str ''converting''))
      \<and> \<not> progress_raises fo result"
    and interval: "0 < poll_interval"
  shows "\<exists>t. wait_loop fo get_task_result start_time max_wait_time poll_interval n clock
           = Some (Inl (TaskTimeout max_wait_time), t)"
proof (induction "start_time + max_wait_time + 1 - clock" arbitrary: n clock rule: less_induct)
  case less
  from running [of n] obtain result d state where
    poll: "get_task_result n = (Inr result, d)"
    and st: "py_get result (str ''state'') (JStr []) = Inr state"
    and rec: "state = JStr (str ''pending'') \<or> state = JStr (str ''running'')
           \<or> state = JStr (str ''converting'')"
    and prog: "\<not> progress_raises fo result"
    by blast
  have nd: "state \<noteq> JStr (str ''done'')" "state \<noteq> JStr (str ''failed'')"
    using rec by (auto simp: str_def)
  show ?case
  proof (cases "clock + d - start_time > max_wait_time")
    case True
    then show ?thesis
      using poll st rec nd by (subst wait_loop.simps) auto
  next
    case False
    then have "start_time + max_wait_time + 1 - (clock + d + poll_interval)
        < start_time + max_wait_time + 1 - clock"
      using interval by linarith
    from less [OF this, of "n + 1"] obtain t where
      "wait_loop fo get_task_result start_time max_wait_time poll_interval (n + 1)
         (clock + d + poll_interval) = Some (Inl (TaskTimeout max_wait_time), t)"
      by blast
    then show ?thesis
      using poll st rec nd prog False by (subst wait_loop.simps) auto
  qed
qed

end
